theory Spec2Isabelle
  imports Main "HOL-Library.AList" "HOL-Library.Word" "HOL-Library.Monad_Syntax"
begin

section \<open>Value model (include/storage.h)\<close>

text \<open>
  The source's \<^verbatim>\<open>Value\<close> holds a tag (\<^verbatim>\<open>ValueType type\<close>), a type-erased pointer
  (\<^verbatim>\<open>std::shared_ptr<void> data\<close>) and \<^verbatim>\<open>time_t expires_at\<close> (\<open>-1\<close> for no expiry).
  Every place of \<^verbatim>\<open>storage.cpp\<close> that builds a Value writes the tag and the container of
  the same kind together, and every typed operation reads the container only after
  comparing the tag, so tag and container are one sum type here: the tag is the
  constructor. A \<^verbatim>\<open>std::vector<std::string>\<close> is a list. A
  \<^verbatim>\<open>std::unordered_set<std::string>\<close> is a list without duplicates; its iteration order
  is unspecified in the source and is the order of insertion here.
\<close>

datatype ValueType = STRING | LIST | SET

datatype Payload =
    StringData string
  | ListData "string list"
  | SetData "string list"

record Value =
  data :: Payload
  expires_at :: int

fun payload_type :: "Payload \<Rightarrow> ValueType" where
  "payload_type (StringData _) = STRING"
| "payload_type (ListData _) = LIST"
| "payload_type (SetData _) = SET"

definition value_type :: "Value \<Rightarrow> ValueType" where
  "value_type v = payload_type (data v)"

text \<open>
  \<^verbatim>\<open>Value::is_expired\<close> reads the wall clock with \<^verbatim>\<open>std::time(nullptr)\<close>. The clock is the
  explicit argument \<open>now\<close> (seconds) of every operation that reads it.
\<close>

definition is_expired :: "int \<Rightarrow> Value \<Rightarrow> bool" where
  "is_expired now v = (if expires_at v = - 1 then False else now > expires_at v)"

section \<open>Storage engine (src/storage.cpp)\<close>

text \<open>
  \<^verbatim>\<open>data_\<close> is an \<^verbatim>\<open>unordered_map\<close> from keys to Values: an association list with one
  entry per key. \<^verbatim>\<open>find\<close> is \<open>map_of\<close>, \<^verbatim>\<open>data_[key] = val\<close> is \<open>AList.update\<close>,
  \<^verbatim>\<open>erase\<close> is \<open>AList.delete\<close>, \<^verbatim>\<open>size\<close> is \<open>length\<close>, and iteration follows the list.
  Every operation takes the keyspace and returns its result; an operation that can change
  the keyspace returns the new keyspace beside the result. The reader-writer lock is not
  modelled: each operation runs alone.
\<close>

type_synonym keyspace = "(string \<times> Value) list"

definition set_op :: "string \<Rightarrow> string \<Rightarrow> keyspace \<Rightarrow> bool \<times> keyspace" where
  "set_op key val s = (True, AList.update key \<lparr>data = StringData val, expires_at = - 1\<rparr> s)"

definition cleanup_expired :: "int \<Rightarrow> string \<Rightarrow> keyspace \<Rightarrow> keyspace" where
  "cleanup_expired now key s =
     (case map_of s key of
        None \<Rightarrow> s
      | Some v \<Rightarrow> if is_expired now v then AList.delete key s else s)"

definition get :: "int \<Rightarrow> string \<Rightarrow> keyspace \<Rightarrow> string option \<times> keyspace" where
  "get now key s =
     (case map_of s key of
        None \<Rightarrow> (None, s)
      | Some v \<Rightarrow>
          if is_expired now v then (None, cleanup_expired now key s)
          else (case data v of
                  StringData str \<Rightarrow> (Some str, s)
                | _ \<Rightarrow> (None, s)))"

definition del :: "string \<Rightarrow> keyspace \<Rightarrow> bool \<times> keyspace" where
  "del key s = (map_of s key \<noteq> None, AList.delete key s)"

definition exists :: "int \<Rightarrow> string \<Rightarrow> keyspace \<Rightarrow> bool \<times> keyspace" where
  "exists now key s =
     (case map_of s key of
        None \<Rightarrow> (False, s)
      | Some v \<Rightarrow>
          if is_expired now v then (False, cleanup_expired now key s)
          else (True, s))"

definition expire :: "int \<Rightarrow> string \<Rightarrow> int \<Rightarrow> keyspace \<Rightarrow> bool \<times> keyspace" where
  "expire now key seconds s =
     (case map_of s key of
        None \<Rightarrow> (False, s)
      | Some v \<Rightarrow> (True, AList.update key (v\<lparr>expires_at := now + seconds\<rparr>) s))"

text \<open>\<^verbatim>\<open>static_cast<int>\<close> of a \<^verbatim>\<open>time_t\<close> difference keeps the low 32 bits, signed.\<close>

definition static_cast_int :: "int \<Rightarrow> int" where
  "static_cast_int x = sint (word_of_int x :: 32 word)"

definition ttl :: "int \<Rightarrow> string \<Rightarrow> keyspace \<Rightarrow> int" where
  "ttl now key s =
     (case map_of s key of
        None \<Rightarrow> - 2
      | Some v \<Rightarrow>
          if is_expired now v then - 2
          else if expires_at v = - 1 then - 1
          else (let remaining = static_cast_int (expires_at v - now)
                in if remaining > 0 then remaining else - 2))"

fun empty_payload :: "ValueType \<Rightarrow> Payload" where
  "empty_payload LIST = ListData []"
| "empty_payload SET = SetData []"
| "empty_payload STRING = StringData []"

text \<open>
  \<^verbatim>\<open>get_or_create\<close> returns a pointer to the Value held by the map (or \<^verbatim>\<open>nullptr\<close> on a
  tag mismatch); the callers mutate the container through it. Here it returns the Value,
  and the caller writes the changed Value back at the same key.
\<close>

definition get_or_create :: "string \<Rightarrow> ValueType \<Rightarrow> keyspace \<Rightarrow> Value option \<times> keyspace" where
  "get_or_create key t s =
     (case map_of s key of
        None \<Rightarrow>
          (let val = \<lparr>data = empty_payload t, expires_at = - 1\<rparr>
           in (Some val, AList.update key val s))
      | Some v \<Rightarrow> if value_type v \<noteq> t then (None, s) else (Some v, s))"

definition lpush :: "string \<Rightarrow> string \<Rightarrow> keyspace \<Rightarrow> bool \<times> keyspace" where
  "lpush key val s =
     (case get_or_create key LIST s of
        (None, s') \<Rightarrow> (False, s')
      | (Some v, s') \<Rightarrow>
          (case data v of
             ListData xs \<Rightarrow> (True, AList.update key (v\<lparr>data := ListData (val # xs)\<rparr>) s')
           | _ \<Rightarrow> (False, s')))"

definition rpush :: "string \<Rightarrow> string \<Rightarrow> keyspace \<Rightarrow> bool \<times> keyspace" where
  "rpush key val s =
     (case get_or_create key LIST s of
        (None, s') \<Rightarrow> (False, s')
      | (Some v, s') \<Rightarrow>
          (case data v of
             ListData xs \<Rightarrow> (True, AList.update key (v\<lparr>data := ListData (xs @ [val])\<rparr>) s')
           | _ \<Rightarrow> (False, s')))"

definition lpop :: "string \<Rightarrow> keyspace \<Rightarrow> string option \<times> keyspace" where
  "lpop key s =
     (case map_of s key of
        None \<Rightarrow> (None, s)
      | Some v \<Rightarrow>
          (case data v of
             ListData xs \<Rightarrow>
               (case xs of
                  [] \<Rightarrow> (None, s)
                | x # rest \<Rightarrow> (Some x, AList.update key (v\<lparr>data := ListData rest\<rparr>) s))
           | _ \<Rightarrow> (None, s)))"

definition rpop :: "string \<Rightarrow> keyspace \<Rightarrow> string option \<times> keyspace" where
  "rpop key s =
     (case map_of s key of
        None \<Rightarrow> (None, s)
      | Some v \<Rightarrow>
          (case data v of
             ListData xs \<Rightarrow>
               (if xs = [] then (None, s)
                else (Some (last xs), AList.update key (v\<lparr>data := ListData (butlast xs)\<rparr>) s))
           | _ \<Rightarrow> (None, s)))"

text \<open>
  \<^verbatim>\<open>lrange\<close> builds its result with the iterator-range constructor
  \<^verbatim>\<open>vector(begin() + start, begin() + stop + 1)\<close>. The range must lie inside the vector;
  when \<^verbatim>\<open>stop + 1\<close> exceeds the size the source reads past the end, which is undefined
  behaviour in C++ and the outcome \<open>Inl OutOfBounds\<close> here. The \<^verbatim>\<open>int\<close> arithmetic cannot
  overflow (a negative index plus a size, or a clamped index plus one), so \<open>int\<close> is exact.
\<close>

datatype error = OutOfBounds

definition lrange :: "string \<Rightarrow> int \<Rightarrow> int \<Rightarrow> keyspace \<Rightarrow> error + string list option" where
  "lrange key start stop s =
     (case map_of s key of
        None \<Rightarrow> Inr None
      | Some v \<Rightarrow>
          (case data v of
             ListData xs \<Rightarrow>
               (let size = int (length xs);
                    start1 = (if start < 0 then start + size else start);
                    stop1 = (if stop < 0 then stop + size else stop);
                    start2 = max 0 (min start1 (size - 1));
                    stop2 = max 0 (min stop1 (size - 1))
                in if start2 > stop2 then Inr (Some [])
                   else if size < stop2 + 1 then Inl OutOfBounds
                   else Inr (Some (take (nat (stop2 + 1 - start2)) (drop (nat start2) xs))))
           | _ \<Rightarrow> Inr None))"

definition llen :: "string \<Rightarrow> keyspace \<Rightarrow> int" where
  "llen key s =
     (case map_of s key of
        None \<Rightarrow> 0
      | Some v \<Rightarrow> (case data v of ListData xs \<Rightarrow> int (length xs) | _ \<Rightarrow> 0))"

definition sadd :: "string \<Rightarrow> string \<Rightarrow> keyspace \<Rightarrow> bool \<times> keyspace" where
  "sadd key member s =
     (case get_or_create key SET s of
        (None, s') \<Rightarrow> (False, s')
      | (Some v, s') \<Rightarrow>
          (case data v of
             SetData ms \<Rightarrow>
               (if member \<in> set ms then (False, s')
                else (True, AList.update key (v\<lparr>data := SetData (ms @ [member])\<rparr>) s'))
           | _ \<Rightarrow> (False, s')))"

definition srem :: "string \<Rightarrow> string \<Rightarrow> keyspace \<Rightarrow> bool \<times> keyspace" where
  "srem key member s =
     (case map_of s key of
        None \<Rightarrow> (False, s)
      | Some v \<Rightarrow>
          (case data v of
             SetData ms \<Rightarrow>
               (if member \<in> set ms
                then (True, AList.update key (v\<lparr>data := SetData (removeAll member ms)\<rparr>) s)
                else (False, s))
           | _ \<Rightarrow> (False, s)))"

definition sismember :: "string \<Rightarrow> string \<Rightarrow> keyspace \<Rightarrow> bool" where
  "sismember key member s =
     (case map_of s key of
        None \<Rightarrow> False
      | Some v \<Rightarrow> (case data v of SetData ms \<Rightarrow> member \<in> set ms | _ \<Rightarrow> False))"

definition smembers :: "string \<Rightarrow> keyspace \<Rightarrow> string list option" where
  "smembers key s =
     (case map_of s key of
        None \<Rightarrow> None
      | Some v \<Rightarrow> (case data v of SetData ms \<Rightarrow> Some ms | _ \<Rightarrow> None))"

definition scard :: "string \<Rightarrow> keyspace \<Rightarrow> int" where
  "scard key s =
     (case map_of s key of
        None \<Rightarrow> 0
      | Some v \<Rightarrow> (case data v of SetData ms \<Rightarrow> int (length ms) | _ \<Rightarrow> 0))"

definition dbsize :: "keyspace \<Rightarrow> nat" where
  "dbsize s = length s"

definition clear :: "keyspace \<Rightarrow> keyspace" where
  "clear s = []"

definition keys :: "int \<Rightarrow> keyspace \<Rightarrow> string list" where
  "keys now s = map fst (filter (\<lambda>(key, val). \<not> is_expired now val) s)"

definition get_snapshot :: "keyspace \<Rightarrow> keyspace" where
  "get_snapshot s = s"

definition restore_snapshot :: "keyspace \<Rightarrow> keyspace \<Rightarrow> keyspace" where
  "restore_snapshot d s = d"

section \<open>Protocol codec (include/protocol.h, src/protocol.cpp)\<close>

datatype CommandType =
    SET | GET | DEL | EXISTS | EXPIRE | TTL | KEYS | DBSIZE
  | LPUSH | RPUSH | LPOP | RPOP | LRANGE | LLEN
  | SADD | SREM | SISMEMBER | SMEMBERS | SCARD
  | PING | QUIT | UNKNOWN

datatype StatusCode = OK | ERROR | NOT_FOUND | WRONG_TYPE | INVALID_ARGS

datatype Request = Request (command: CommandType) (args: "string list")

datatype Response = Response (status: StatusCode) (resp_data: "string list")

text \<open>\<^verbatim>\<open>std::to_string\<close> and the stream's \<^verbatim>\<open><<\<close> on a number: decimal digits, \<open>-\<close> first
  for a negative number.\<close>

definition digit_char :: "nat \<Rightarrow> char" where
  "digit_char d = ''0123456789'' ! d"

fun nat_to_string :: "nat \<Rightarrow> string" where
  "nat_to_string n =
     (if n < 10 then [digit_char n]
      else nat_to_string (n div 10) @ [digit_char (n mod 10)])"

declare nat_to_string.simps [simp del]

definition to_string :: "int \<Rightarrow> string" where
  "to_string i =
     (if i < 0 then CHR ''-'' # nat_to_string (nat (- i)) else nat_to_string (nat i))"

definition CRLF :: string where
  "CRLF = [CHR 0x0D, CHR 0x0A]"

fun serialize_response :: "Response \<Rightarrow> string" where
  "serialize_response (Response OK d) =
     (if d = [] then ''+OK'' @ CRLF
      else if length d = 1 then
        (let str = d ! 0 in ''$'' @ nat_to_string (length str) @ CRLF @ str @ CRLF)
      else
        ''*'' @ nat_to_string (length d) @ CRLF
          @ concat (map (\<lambda>item. ''$'' @ nat_to_string (length item) @ CRLF @ item @ CRLF) d))"
| "serialize_response (Response NOT_FOUND d) = ''$-1'' @ CRLF"
| "serialize_response (Response ERROR d) =
     ''-ERR '' @ (if d \<noteq> [] then d ! 0 else ''unknown error'') @ CRLF"
| "serialize_response (Response WRONG_TYPE d) =
     ''-WRONGTYPE Operation against a key holding the wrong kind of value'' @ CRLF"
| "serialize_response (Response INVALID_ARGS d) =
     ''-ERR wrong number of arguments'' @ CRLF"

section \<open>Command dispatcher (src/server.cpp)\<close>

text \<open>
  \<^verbatim>\<open>std::stoi\<close>: skips leading white space, takes an optional sign and the longest run of
  decimal digits, and throws when there is no digit or the number does not fit an
  \<^verbatim>\<open>int\<close>. The dispatcher catches every exception, so a throw is \<open>None\<close>.
\<close>

definition isspace :: "char \<Rightarrow> bool" where
  "isspace c =
     (c = CHR '' '' \<or> c = CHR 0x09 \<or> c = CHR 0x0A \<or> c = CHR 0x0B \<or> c = CHR 0x0C
      \<or> c = CHR 0x0D)"

definition isdigit :: "char \<Rightarrow> bool" where
  "isdigit c = (48 \<le> (of_char c :: nat) \<and> (of_char c :: nat) \<le> 57)"

definition digit_value :: "char \<Rightarrow> int" where
  "digit_value c = int (of_char c) - 48"

definition stoi :: "string \<Rightarrow> int option" where
  "stoi str =
     (let s1 = dropWhile isspace str;
          neg = (s1 \<noteq> [] \<and> hd s1 = CHR ''-'');
          s2 = (if s1 \<noteq> [] \<and> (hd s1 = CHR ''-'' \<or> hd s1 = CHR ''+'') then tl s1 else s1);
          ds = takeWhile isdigit s2
      in if ds = [] then None
         else (let n = foldl (\<lambda>acc c. 10 * acc + digit_value c) 0 ds;
                   v = (if neg then - n else n)
               in if v < - 2147483648 \<or> 2147483647 < v then None else Some v))"

definition bool_reply :: "bool \<Rightarrow> string" where
  "bool_reply b = (if b then ''1'' else ''0'')"

text \<open>
  \<^verbatim>\<open>Server::execute_command\<close>, one equation per \<^verbatim>\<open>case\<close> of the switch, in the source's
  order. The result is the Response and the keyspace after the storage calls. \<open>Inl\<close> is
  the undefined behaviour \<open>lrange\<close> can run into, which no \<^verbatim>\<open>catch\<close> intercepts.
\<close>

fun execute_command :: "int \<Rightarrow> Request \<Rightarrow> keyspace \<Rightarrow> error + Response \<times> keyspace" where
  "execute_command now (Request PING a) s = Inr (Response OK [''PONG''], s)"
| "execute_command now (Request SET a) s =
     (if length a \<noteq> 2 then Inr (Response INVALID_ARGS [], s)
      else Inr (Response OK [], snd (set_op (a ! 0) (a ! 1) s)))"
| "execute_command now (Request GET a) s =
     (if length a \<noteq> 1 then Inr (Response INVALID_ARGS [], s)
      else (case get now (a ! 0) s of
              (Some val, s') \<Rightarrow> Inr (Response OK [val], s')
            | (None, s') \<Rightarrow> Inr (Response NOT_FOUND [], s')))"
| "execute_command now (Request DEL a) s =
     (if length a \<noteq> 1 then Inr (Response INVALID_ARGS [], s)
      else (case del (a ! 0) s of
              (deleted, s') \<Rightarrow> Inr (Response OK [bool_reply deleted], s')))"
| "execute_command now (Request EXISTS a) s =
     (if length a \<noteq> 1 then Inr (Response INVALID_ARGS [], s)
      else (case exists now (a ! 0) s of
              (ex, s') \<Rightarrow> Inr (Response OK [bool_reply ex], s')))"
| "execute_command now (Request EXPIRE a) s =
     (if length a \<noteq> 2 then Inr (Response INVALID_ARGS [], s)
      else (case stoi (a ! 1) of
              None \<Rightarrow> Inr (Response ERROR [''invalid timeout value''], s)
            | Some seconds \<Rightarrow>
                (case expire now (a ! 0) seconds s of
                   (success, s') \<Rightarrow> Inr (Response OK [bool_reply success], s'))))"
| "execute_command now (Request TTL a) s =
     (if length a \<noteq> 1 then Inr (Response INVALID_ARGS [], s)
      else Inr (Response OK [to_string (ttl now (a ! 0) s)], s))"
| "execute_command now (Request KEYS a) s = Inr (Response OK (keys now s), s)"
| "execute_command now (Request DBSIZE a) s =
     Inr (Response OK [nat_to_string (dbsize s)], s)"
| "execute_command now (Request LPUSH a) s =
     (if length a \<noteq> 2 then Inr (Response INVALID_ARGS [], s)
      else (case lpush (a ! 0) (a ! 1) s of
              (success, s') \<Rightarrow>
                if \<not> success then Inr (Response WRONG_TYPE [], s')
                else Inr (Response OK [to_string (llen (a ! 0) s')], s')))"
| "execute_command now (Request RPUSH a) s =
     (if length a \<noteq> 2 then Inr (Response INVALID_ARGS [], s)
      else (case rpush (a ! 0) (a ! 1) s of
              (success, s') \<Rightarrow>
                if \<not> success then Inr (Response WRONG_TYPE [], s')
                else Inr (Response OK [to_string (llen (a ! 0) s')], s')))"
| "execute_command now (Request LPOP a) s =
     (if length a \<noteq> 1 then Inr (Response INVALID_ARGS [], s)
      else (case lpop (a ! 0) s of
              (Some val, s') \<Rightarrow> Inr (Response OK [val], s')
            | (None, s') \<Rightarrow> Inr (Response NOT_FOUND [], s')))"
| "execute_command now (Request RPOP a) s =
     (if length a \<noteq> 1 then Inr (Response INVALID_ARGS [], s)
      else (case rpop (a ! 0) s of
              (Some val, s') \<Rightarrow> Inr (Response OK [val], s')
            | (None, s') \<Rightarrow> Inr (Response NOT_FOUND [], s')))"
| "execute_command now (Request LRANGE a) s =
     (if length a \<noteq> 3 then Inr (Response INVALID_ARGS [], s)
      else (case stoi (a ! 1) of
              None \<Rightarrow> Inr (Response ERROR [''invalid index''], s)
            | Some start \<Rightarrow>
                (case stoi (a ! 2) of
                   None \<Rightarrow> Inr (Response ERROR [''invalid index''], s)
                 | Some stop \<Rightarrow>
                     (case lrange (a ! 0) start stop s of
                        Inl e \<Rightarrow> Inl e
                      | Inr (Some l) \<Rightarrow> Inr (Response OK l, s)
                      | Inr None \<Rightarrow> Inr (Response NOT_FOUND [], s)))))"
| "execute_command now (Request LLEN a) s =
     (if length a \<noteq> 1 then Inr (Response INVALID_ARGS [], s)
      else Inr (Response OK [to_string (llen (a ! 0) s)], s))"
| "execute_command now (Request SADD a) s =
     (if length a \<noteq> 2 then Inr (Response INVALID_ARGS [], s)
      else (case sadd (a ! 0) (a ! 1) s of
              (added, s') \<Rightarrow> Inr (Response OK [bool_reply added], s')))"
| "execute_command now (Request SREM a) s =
     (if length a \<noteq> 2 then Inr (Response INVALID_ARGS [], s)
      else (case srem (a ! 0) (a ! 1) s of
              (removed, s') \<Rightarrow> Inr (Response OK [bool_reply removed], s')))"
| "execute_command now (Request SISMEMBER a) s =
     (if length a \<noteq> 2 then Inr (Response INVALID_ARGS [], s)
      else Inr (Response OK [bool_reply (sismember (a ! 0) (a ! 1) s)], s))"
| "execute_command now (Request SMEMBERS a) s =
     (if length a \<noteq> 1 then Inr (Response INVALID_ARGS [], s)
      else (case smembers (a ! 0) s of
              Some members \<Rightarrow> Inr (Response OK members, s)
            | None \<Rightarrow> Inr (Response NOT_FOUND [], s)))"
| "execute_command now (Request SCARD a) s =
     (if length a \<noteq> 1 then Inr (Response INVALID_ARGS [], s)
      else Inr (Response OK [to_string (scard (a ! 0) s)], s))"
| "execute_command now (Request QUIT a) s = Inr (Response OK [''Goodbye''], s)"
| "execute_command now (Request UNKNOWN a) s = Inr (Response ERROR [''unknown command''], s)"

section \<open>Snapshot persistence (src/persistence.cpp)\<close>

text \<open>
  The snapshot file is the sequence of fields the source writes with \<^verbatim>\<open>write\<close>, each
  field carrying the number or the bytes written: a \<^verbatim>\<open>size_t\<close> is \<open>U64\<close>, the tag byte
  is \<open>U8\<close>, the \<^verbatim>\<open>time_t\<close> is \<open>I64\<close>, raw characters are \<open>Bytes\<close>. Width and byte
  order of the numbers are the host's and are not modelled. A read that does not find its
  field at the head of the stream (a short file) is \<open>None\<close>: the source goes on with a
  variable nothing has set. Opening the file and the console messages are left out; the
  clock is read once for the whole save or load.
\<close>

datatype field = U64 nat | U8 nat | I64 int | Bytes string

fun type_byte :: "ValueType \<Rightarrow> nat" where
  "type_byte STRING = 0"
| "type_byte LIST = 1"
| "type_byte ValueType.SET = 2"

definition serialize_value :: "Value \<Rightarrow> field list" where
  "serialize_value v =
     [U8 (type_byte (value_type v)), I64 (expires_at v)]
     @ (case data v of
          StringData str \<Rightarrow> [U64 (length str), Bytes str]
        | ListData xs \<Rightarrow>
            U64 (length xs) # concat (map (\<lambda>item. [U64 (length item), Bytes item]) xs)
        | SetData ms \<Rightarrow>
            U64 (length ms) # concat (map (\<lambda>item. [U64 (length item), Bytes item]) ms))"

definition save_snapshot :: "int \<Rightarrow> keyspace \<Rightarrow> field list" where
  "save_snapshot now s =
     (let snapshot = get_snapshot s
      in U64 (length snapshot)
         # concat (map (\<lambda>(key, val).
                     if is_expired now val then []
                     else [U64 (length key), Bytes key] @ serialize_value val) snapshot))"

fun read_u64 :: "field list \<Rightarrow> (nat \<times> field list) option" where
  "read_u64 (U64 n # rest) = Some (n, rest)"
| "read_u64 _ = None"

fun read_u8 :: "field list \<Rightarrow> (nat \<times> field list) option" where
  "read_u8 (U8 n # rest) = Some (n, rest)"
| "read_u8 _ = None"

fun read_i64 :: "field list \<Rightarrow> (int \<times> field list) option" where
  "read_i64 (I64 n # rest) = Some (n, rest)"
| "read_i64 _ = None"

fun read_bytes :: "nat \<Rightarrow> field list \<Rightarrow> (string \<times> field list) option" where
  "read_bytes n (Bytes b # rest) = (if length b = n then Some (b, rest) else None)"
| "read_bytes n _ = None"

fun read_items :: "nat \<Rightarrow> field list \<Rightarrow> (string list \<times> field list) option" where
  "read_items 0 f = Some ([], f)"
| "read_items (Suc n) f =
     do {
       (len, f1) \<leftarrow> read_u64 f;
       (item, f2) \<leftarrow> read_bytes len f1;
       (items, f3) \<leftarrow> read_items n f2;
       Some (item # items, f3)
     }"

text \<open>The loop \<^verbatim>\<open>set->insert(item)\<close> over the items read: a repeated item is kept once.\<close>

definition insert_all :: "string list \<Rightarrow> string list" where
  "insert_all items = foldl (\<lambda>ms item. if item \<in> set ms then ms else ms @ [item]) [] items"

text \<open>
  A tag byte other than 0, 1 or 2 leaves the Value without a container; the result is
  then \<open>None\<close> in place of a Value, with the stream after the expiry field.
\<close>

definition deserialize_value :: "field list \<Rightarrow> (Value option \<times> field list) option" where
  "deserialize_value f =
     do {
       (tb, f1) \<leftarrow> read_u8 f;
       (e, f2) \<leftarrow> read_i64 f1;
       if tb = 0 then
         do {
           (len, f3) \<leftarrow> read_u64 f2;
           (str, f4) \<leftarrow> read_bytes len f3;
           Some (Some \<lparr>data = StringData str, expires_at = e\<rparr>, f4)
         }
       else if tb = 1 then
         do {
           (count, f3) \<leftarrow> read_u64 f2;
           (items, f4) \<leftarrow> read_items count f3;
           Some (Some \<lparr>data = ListData items, expires_at = e\<rparr>, f4)
         }
       else if tb = 2 then
         do {
           (count, f3) \<leftarrow> read_u64 f2;
           (items, f4) \<leftarrow> read_items count f3;
           Some (Some \<lparr>data = SetData (insert_all items), expires_at = e\<rparr>, f4)
         }
       else Some (None, f2)
     }"

text \<open>
  The body of the loop of \<^verbatim>\<open>load_snapshot\<close> after the Value is read: only a String is
  put back, through \<^verbatim>\<open>set\<close> and, when a positive number of seconds remains, \<^verbatim>\<open>expire\<close>.
\<close>

definition restore_entry :: "int \<Rightarrow> string \<Rightarrow> Value option \<Rightarrow> keyspace \<Rightarrow> keyspace" where
  "restore_entry now key val s =
     (case val of
        None \<Rightarrow> s
      | Some v \<Rightarrow>
          (case data v of
             StringData str \<Rightarrow>
               (let s1 = snd (set_op key str s)
                in if expires_at v \<noteq> - 1 then
                     (let ttl = static_cast_int (expires_at v - now)
                      in if ttl > 0 then snd (expire now key ttl s1) else s1)
                   else s1)
           | _ \<Rightarrow> s))"

fun load_entries :: "int \<Rightarrow> nat \<Rightarrow> field list \<Rightarrow> keyspace \<Rightarrow> keyspace option" where
  "load_entries now 0 f s = Some s"
| "load_entries now (Suc n) f s =
     do {
       (key_len, f1) \<leftarrow> read_u64 f;
       (key, f2) \<leftarrow> read_bytes key_len f1;
       (val, f3) \<leftarrow> deserialize_value f2;
       load_entries now n f3 (restore_entry now key val s)
     }"

definition load_snapshot :: "int \<Rightarrow> field list \<Rightarrow> keyspace \<Rightarrow> keyspace option" where
  "load_snapshot now f s =
     do {
       (count, f1) \<leftarrow> read_u64 f;
       load_entries now count f1 (clear s)
     }"

section \<open>Definitions that follow the specification\<close>

text \<open>
  The arity table of the command surface as the specification lists it (section 6). The
  source has no such table: each \<^verbatim>\<open>case\<close> of the dispatcher carries its own check.
\<close>

fun spec_arity :: "CommandType \<Rightarrow> nat" where
  "spec_arity PING = 0" | "spec_arity QUIT = 0" | "spec_arity KEYS = 0" | "spec_arity DBSIZE = 0"
| "spec_arity SET = 2" | "spec_arity GET = 1" | "spec_arity DEL = 1" | "spec_arity EXISTS = 1"
| "spec_arity EXPIRE = 2" | "spec_arity TTL = 1"
| "spec_arity LPUSH = 2" | "spec_arity RPUSH = 2" | "spec_arity LPOP = 1" | "spec_arity RPOP = 1"
| "spec_arity LRANGE = 3" | "spec_arity LLEN = 1"
| "spec_arity SADD = 2" | "spec_arity SREM = 2" | "spec_arity SISMEMBER = 2"
| "spec_arity SMEMBERS = 1" | "spec_arity SCARD = 1"

text \<open>
  The array encoding as the specification words it: \<^verbatim>\<open>*<n>\r\n\<close>, then
  \<^verbatim>\<open>$<len>\r\n<item>\r\n\<close> for each item.
\<close>

definition spec_array_encoding :: "string list \<Rightarrow> string" where
  "spec_array_encoding v =
     ''*'' @ nat_to_string (length v) @ CRLF
       @ concat (map (\<lambda>item. ''$'' @ nat_to_string (length item) @ CRLF @ item @ CRLF) v)"

section \<open>Helper lemmas\<close>

lemma get_or_create_mismatch:
  "map_of s k = Some val \<Longrightarrow> value_type val \<noteq> t \<Longrightarrow> get_or_create k t s = (None, s)"
  by (simp add: get_or_create_def)

section \<open>SET then GET\<close>

text \<open>
  C3. For every key \<open>k\<close>, value \<open>v\<close>, keyspace \<open>s\<close> and clock reading: \<open>set\<close> stores at
  \<open>k\<close> a fresh String Value holding \<open>v\<close> with no expiry, whatever was there before; a
  \<open>get\<close> that follows returns exactly \<open>v\<close> and leaves the keyspace as it is; \<open>ttl\<close> then
  answers \<open>-1\<close>. The same through the dispatcher: SET answers OK and GET answers \<open>v\<close>.
\<close>

theorem set_then_get:
  "fst (set_op k v s) = True
   \<and> map_of (snd (set_op k v s)) k = Some \<lparr>data = StringData v, expires_at = - 1\<rparr>
   \<and> get now k (snd (set_op k v s)) = (Some v, snd (set_op k v s))
   \<and> ttl now k (snd (set_op k v s)) = - 1
   \<and> execute_command now (Request SET [k, v]) s = Inr (Response OK [], snd (set_op k v s))
   \<and> execute_command now (Request GET [k]) (snd (set_op k v s))
       = Inr (Response OK [v], snd (set_op k v s))"
  by (simp add: set_op_def get_def ttl_def is_expired_def update_conv')

section \<open>Typed writes on a Value of another variant\<close>

text \<open>
  What typed writes on a Value of another variant do. Let \<open>k\<close> hold the Value \<open>val\<close>. If
  \<open>val\<close> is not a List, \<open>lpush\<close> and \<open>rpush\<close> fail and leave the keyspace as it is, and
  the dispatcher answers LPUSH and RPUSH with the wrong-type response. If \<open>val\<close> is not a
  Set, \<open>sadd\<close> returns false and leaves the keyspace as it is, and the dispatcher answers
  SADD with OK and \<open>0\<close>. If \<open>val\<close> is a String that is not expired, a GET afterwards still
  returns its string.
\<close>

lemma wrong_type_leaves_value:
  assumes "map_of s k = Some val"
  shows "(value_type val \<noteq> LIST \<longrightarrow>
            lpush k v s = (False, s) \<and> rpush k v s = (False, s)
            \<and> execute_command now (Request LPUSH [k, v]) s = Inr (Response WRONG_TYPE [], s)
            \<and> execute_command now (Request RPUSH [k, v]) s = Inr (Response WRONG_TYPE [], s))
       \<and> (value_type val \<noteq> ValueType.SET \<longrightarrow>
            sadd k v s = (False, s)
            \<and> execute_command now (Request SADD [k, v]) s = Inr (Response OK [''0''], s))
       \<and> (data val = StringData str \<and> \<not> is_expired now val \<longrightarrow>
            get now k s = (Some str, s)
            \<and> execute_command now (Request GET [k]) s = Inr (Response OK [str], s))"
  using assms
  by (simp add: lpush_def rpush_def sadd_def get_or_create_mismatch get_def bool_reply_def)

text \<open>The lemma at the keyspace that holds the string \<open>v\<close> at \<open>k\<close>.\<close>

lemma wrong_type_leaves_value_witness:
  "map_of [(''k'', \<lparr>data = StringData ''v'', expires_at = - 1\<rparr>)] ''k''
     = Some \<lparr>data = StringData ''v'', expires_at = - 1\<rparr>
   \<and> value_type \<lparr>data = StringData ''v'', expires_at = - 1\<rparr> \<noteq> LIST
   \<and> value_type \<lparr>data = StringData ''v'', expires_at = - 1\<rparr> \<noteq> ValueType.SET
   \<and> \<not> is_expired 0 \<lparr>data = StringData ''v'', expires_at = - 1\<rparr>
   \<and> execute_command 0 (Request LPUSH [''k'', ''z''])
        [(''k'', \<lparr>data = StringData ''v'', expires_at = - 1\<rparr>)]
      = Inr (Response WRONG_TYPE [], [(''k'', \<lparr>data = StringData ''v'', expires_at = - 1\<rparr>)])
   \<and> sadd ''k'' ''z'' [(''k'', \<lparr>data = StringData ''v'', expires_at = - 1\<rparr>)]
      = (False, [(''k'', \<lparr>data = StringData ''v'', expires_at = - 1\<rparr>)])
   \<and> get 0 ''k'' [(''k'', \<lparr>data = StringData ''v'', expires_at = - 1\<rparr>)]
      = (Some ''v'', [(''k'', \<lparr>data = StringData ''v'', expires_at = - 1\<rparr>)])"
  using wrong_type_leaves_value
          [of "[(''k'', \<lparr>data = StringData ''v'', expires_at = - 1\<rparr>)]" "''k''"
              "\<lparr>data = StringData ''v'', expires_at = - 1\<rparr>" "''z''" 0 "''v''"]
  by (simp add: value_type_def is_expired_def)

text \<open>
  C4. The claim asks LPUSH, RPUSH and SADD on a key that holds a String to return the
  wrong-type outcome and to leave the Value as it is. On the keyspace that holds the
  string \<open>v\<close> at \<open>k\<close>, SADD is answered with OK and \<open>0\<close>, not with the wrong-type
  response: \<open>sadd\<close> finds the mismatch and returns false, as \<open>lpush\<close> does, and the
  dispatcher, which answers LPUSH with the wrong-type response on the same keyspace,
  writes the false of \<open>sadd\<close> as \<open>0\<close>. The Value stays as it is.
\<close>

theorem sadd_on_string_answers_zero:
  "execute_command 0 (Request SADD [''k'', ''m''])
     [(''k'', \<lparr>data = StringData ''v'', expires_at = - 1\<rparr>)]
   = Inr (Response OK [''0''], [(''k'', \<lparr>data = StringData ''v'', expires_at = - 1\<rparr>)])
   \<and> sadd ''k'' ''m'' [(''k'', \<lparr>data = StringData ''v'', expires_at = - 1\<rparr>)]
     = (False, [(''k'', \<lparr>data = StringData ''v'', expires_at = - 1\<rparr>)])
   \<and> lpush ''k'' ''m'' [(''k'', \<lparr>data = StringData ''v'', expires_at = - 1\<rparr>)]
     = (False, [(''k'', \<lparr>data = StringData ''v'', expires_at = - 1\<rparr>)])
   \<and> execute_command 0 (Request LPUSH [''k'', ''m''])
        [(''k'', \<lparr>data = StringData ''v'', expires_at = - 1\<rparr>)]
      = Inr (Response WRONG_TYPE [], [(''k'', \<lparr>data = StringData ''v'', expires_at = - 1\<rparr>)])"
  by (simp add: sadd_def lpush_def get_or_create_def value_type_def bool_reply_def)

section \<open>Arity checks of the dispatcher\<close>

text \<open>
  What the dispatcher checks. For each of the seventeen commands that take at least one
  argument, an argument list whose length differs from the command's arity is answered
  with the invalid-args response and the keyspace is left as it is. PING, QUIT, KEYS and
  DBSIZE carry no check: with any argument list they answer as with none.
\<close>

lemma arity_mismatch:
  "(cmd \<notin> {PING, QUIT, KEYS, DBSIZE, UNKNOWN} \<and> length a \<noteq> spec_arity cmd
      \<longrightarrow> execute_command now (Request cmd a) s = Inr (Response INVALID_ARGS [], s))
   \<and> (cmd \<in> {PING, QUIT, KEYS, DBSIZE}
      \<longrightarrow> execute_command now (Request cmd a) s = execute_command now (Request cmd []) s)"
  by (cases cmd) simp_all

text \<open>The lemma at GET without argument and at DBSIZE with one.\<close>

lemma arity_mismatch_witness:
  "GET \<notin> {PING, QUIT, KEYS, DBSIZE, UNKNOWN} \<and> length ([] :: string list) \<noteq> spec_arity GET
   \<and> execute_command 0 (Request GET []) [] = Inr (Response INVALID_ARGS [], [])
   \<and> DBSIZE \<in> {PING, QUIT, KEYS, DBSIZE}
   \<and> execute_command 0 (Request DBSIZE [''x'']) [] = execute_command 0 (Request DBSIZE []) []"
  using arity_mismatch [of GET "[]" 0 "[]"] arity_mismatch [of DBSIZE "[''x'']" 0 "[]"]
  by simp

text \<open>
  C7. The claim asks every command of the surface to answer an argument list of the
  wrong length with the invalid-args response, without a call of the storage engine.
  KEYS and PING have arity 0. With one argument the dispatcher calls \<open>keys\<close> and answers
  KEYS with the keys, and answers PING with PONG; SET with three arguments, in the same
  switch, is answered with the invalid-args response.
\<close>

theorem zero_arity_commands_take_arguments:
  "length [''x''] \<noteq> spec_arity KEYS
   \<and> execute_command 0 (Request KEYS [''x''])
        [(''a'', \<lparr>data = StringData ''b'', expires_at = - 1\<rparr>)]
      = Inr (Response OK [''a''], [(''a'', \<lparr>data = StringData ''b'', expires_at = - 1\<rparr>)])
   \<and> length [''x''] \<noteq> spec_arity PING
   \<and> execute_command 0 (Request PING [''x'']) [] = Inr (Response OK [''PONG''], [])
   \<and> execute_command 0 (Request SET [''a'', ''b'', ''c'']) [] = Inr (Response INVALID_ARGS [], [])"
  by (simp add: keys_def is_expired_def)

section \<open>Wire form of an OK response\<close>

text \<open>
  C8, as amended. An OK response with two or more items is written as an array:
  \<^verbatim>\<open>*<n>\r\n\<close>, then \<^verbatim>\<open>$<len>\r\n<item>\r\n\<close> for each item, every length a byte length.
  With exactly one item it is written as that one bulk string, without the array header,
  and with no item it is written as \<^verbatim>\<open>+OK\r\n\<close>.
\<close>

theorem serialize_ok:
  "(2 \<le> length v \<longrightarrow> serialize_response (Response OK v) = spec_array_encoding v)
   \<and> serialize_response (Response OK [x]) = ''$'' @ nat_to_string (length x) @ CRLF @ x @ CRLF
   \<and> serialize_response (Response OK []) = ''+OK'' @ CRLF"
  by (auto simp: spec_array_encoding_def)

text \<open>The theorem at two items, the second one empty.\<close>

theorem serialize_ok_witness:
  "2 \<le> length [''ab'', '''']
   \<and> serialize_response (Response OK [''ab'', ''''])
       = ''*2'' @ CRLF @ ''$2'' @ CRLF @ ''ab'' @ CRLF @ ''$0'' @ CRLF @ CRLF"
  using serialize_ok [of "[''ab'', '''']"]
  by (simp add: spec_array_encoding_def nat_to_string.simps digit_char_def)

text \<open>Arrays of length 0 and 1 are not written in the array encoding.\<close>

theorem short_arrays_not_array_encoded:
  "serialize_response (Response OK []) = ''+OK'' @ CRLF
   \<and> serialize_response (Response OK []) \<noteq> spec_array_encoding []
   \<and> serialize_response (Response OK [''foo'']) = ''$3'' @ CRLF @ ''foo'' @ CRLF
   \<and> serialize_response (Response OK [''foo'']) \<noteq> spec_array_encoding [''foo'']"
  by (simp add: spec_array_encoding_def nat_to_string.simps digit_char_def CRLF_def)

section \<open>Pops that empty a list\<close>



section \<open>Lazy expiration\<close>

text \<open>
  What the read paths that look at the expiry do with an expired Value: \<open>get\<close> and
  \<open>exists\<close> remove the entry and answer as for a missing key, \<open>ttl\<close> answers \<open>-2\<close>, and
  \<open>keys\<close> lists exactly the keys of the entries that are not expired.
\<close>

lemma expired_get_exists_ttl:
  assumes "map_of s k = Some val" and "is_expired now val"
  shows "get now k s = (None, AList.delete k s)
       \<and> exists now k s = (False, AList.delete k s)
       \<and> map_of (AList.delete k s) k = None
       \<and> ttl now k s = - 2"
  using assms
  by (simp add: get_def exists_def cleanup_expired_def ttl_def delete_conv')

lemma keys_sound:
  "k \<in> set (keys now s) \<longleftrightarrow> (\<exists>val. (k, val) \<in> set s \<and> \<not> is_expired now val)"
  by (force simp: keys_def)

lemma keys_le_dbsize: "length (keys now s) \<le> dbsize s"
  by (simp add: keys_def dbsize_def)

text \<open>
  C1. The claim asks every operation that resolves a key to treat an expired Value as
  absent. The list and set operations and \<open>expire\<close> never look at the expiry. At clock
  reading 10, with a Set (built by SADD and EXPIRE) and a List whose expiry instant 1 is
  past: \<open>smembers\<close>, \<open>sismember\<close> and \<open>scard\<close> answer from the expired Set, \<open>sadd\<close> and
  \<open>srem\<close> change it in place, \<open>expire\<close> succeeds on it and gives it a new expiry,
  \<open>lpush\<close> and \<open>rpush\<close> add to the expired List, \<open>lpop\<close>, \<open>rpop\<close>, \<open>lrange\<close> and
  \<open>llen\<close> answer from it, and \<open>dbsize\<close> counts it.
\<close>

theorem expired_values_still_served:
  "snd (expire 0 ''S'' 1 (snd (sadd ''S'' ''a'' [])))
     = [(''S'', \<lparr>data = SetData [''a''], expires_at = 1\<rparr>)]
   \<and> is_expired 10 \<lparr>data = SetData [''a''], expires_at = 1\<rparr>
   \<and> smembers ''S'' [(''S'', \<lparr>data = SetData [''a''], expires_at = 1\<rparr>)] = Some [''a'']
   \<and> execute_command 10 (Request SMEMBERS [''S''])
        [(''S'', \<lparr>data = SetData [''a''], expires_at = 1\<rparr>)]
      = Inr (Response OK [''a''], [(''S'', \<lparr>data = SetData [''a''], expires_at = 1\<rparr>)])
   \<and> sismember ''S'' ''a'' [(''S'', \<lparr>data = SetData [''a''], expires_at = 1\<rparr>)]
   \<and> scard ''S'' [(''S'', \<lparr>data = SetData [''a''], expires_at = 1\<rparr>)] = 1
   \<and> sadd ''S'' ''b'' [(''S'', \<lparr>data = SetData [''a''], expires_at = 1\<rparr>)]
      = (True, [(''S'', \<lparr>data = SetData [''a'', ''b''], expires_at = 1\<rparr>)])
   \<and> srem ''S'' ''a'' [(''S'', \<lparr>data = SetData [''a''], expires_at = 1\<rparr>)]
      = (True, [(''S'', \<lparr>data = SetData [], expires_at = 1\<rparr>)])
   \<and> expire 10 ''S'' 5 [(''S'', \<lparr>data = SetData [''a''], expires_at = 1\<rparr>)]
      = (True, [(''S'', \<lparr>data = SetData [''a''], expires_at = 15\<rparr>)])
   \<and> is_expired 10 \<lparr>data = ListData [''x''], expires_at = 1\<rparr>
   \<and> lpush ''L'' ''y'' [(''L'', \<lparr>data = ListData [''x''], expires_at = 1\<rparr>)]
      = (True, [(''L'', \<lparr>data = ListData [''y'', ''x''], expires_at = 1\<rparr>)])
   \<and> rpush ''L'' ''y'' [(''L'', \<lparr>data = ListData [''x''], expires_at = 1\<rparr>)]
      = (True, [(''L'', \<lparr>data = ListData [''x'', ''y''], expires_at = 1\<rparr>)])
   \<and> lpop ''L'' [(''L'', \<lparr>data = ListData [''x''], expires_at = 1\<rparr>)]
      = (Some ''x'', [(''L'', \<lparr>data = ListData [], expires_at = 1\<rparr>)])
   \<and> rpop ''L'' [(''L'', \<lparr>data = ListData [''x''], expires_at = 1\<rparr>)]
      = (Some ''x'', [(''L'', \<lparr>data = ListData [], expires_at = 1\<rparr>)])
   \<and> lrange ''L'' 0 (- 1) [(''L'', \<lparr>data = ListData [''x''], expires_at = 1\<rparr>)]
      = Inr (Some [''x''])
   \<and> llen ''L'' [(''L'', \<lparr>data = ListData [''x''], expires_at = 1\<rparr>)] = 1
   \<and> dbsize [(''L'', \<lparr>data = ListData [''x''], expires_at = 1\<rparr>)] = 1"
  by (simp add: expire_def sadd_def get_or_create_def value_type_def is_expired_def
      smembers_def sismember_def scard_def srem_def lpush_def rpush_def lpop_def rpop_def
      lrange_def llen_def dbsize_def Let_def)

section \<open>DBSIZE and KEYS\<close>

text \<open>
  C5. The claim asks \<open>dbsize\<close> to count the keys that are not expired and to equal the
  length of \<open>keys\<close>. \<open>dbsize\<close> is the size of the map. After SET and EXPIRE with one
  second at clock reading 0, at clock reading 10 the one entry is expired: \<open>keys\<close> is
  empty, \<open>dbsize\<close> is 1, and the dispatcher answers DBSIZE with \<open>1\<close>.
\<close>

theorem dbsize_counts_expired:
  "snd (expire 0 ''k'' 1 (snd (set_op ''k'' ''v'' [])))
     = [(''k'', \<lparr>data = StringData ''v'', expires_at = 1\<rparr>)]
   \<and> is_expired 10 \<lparr>data = StringData ''v'', expires_at = 1\<rparr>
   \<and> dbsize [(''k'', \<lparr>data = StringData ''v'', expires_at = 1\<rparr>)] = 1
   \<and> keys 10 [(''k'', \<lparr>data = StringData ''v'', expires_at = 1\<rparr>)] = []
   \<and> execute_command 10 (Request DBSIZE [])
        [(''k'', \<lparr>data = StringData ''v'', expires_at = 1\<rparr>)]
      = Inr (Response OK [''1''], [(''k'', \<lparr>data = StringData ''v'', expires_at = 1\<rparr>)])"
  by (simp add: expire_def set_op_def is_expired_def dbsize_def keys_def
      nat_to_string.simps digit_char_def)

section \<open>EXPIRE with zero seconds\<close>

text \<open>
  With a negative count of seconds whose sum with the clock is not \<open>-1\<close>, the key is gone
  for every later reading of the clock.
\<close>

lemma expire_negative:
  assumes "map_of s k = Some val" and "seconds < 0" and "now + seconds \<noteq> - 1"
    and "now \<le> now'"
  shows "fst (expire now k seconds s)
       \<and> fst (get now' k (snd (expire now k seconds s))) = None
       \<and> \<not> fst (exists now' k (snd (expire now k seconds s)))
       \<and> map_of (snd (get now' k (snd (expire now k seconds s)))) k = None
       \<and> ttl now' k (snd (expire now k seconds s)) = - 2"
  using assms
  by (simp add: expire_def update_conv' get_def exists_def is_expired_def
      cleanup_expired_def delete_conv' ttl_def)

text \<open>
  C6. The claim asks a key to be gone right after \<open>expire\<close> with a count of seconds that
  is zero or negative. \<open>is_expired\<close> compares with \<open>>\<close>, so with zero seconds, at the same
  clock reading 100, \<open>get\<close> still returns the value, \<open>exists\<close> answers true and \<open>keys\<close>
  lists the key, while \<open>ttl\<close> already answers \<open>-2\<close>. With \<open>-101\<close> seconds the new expiry
  is \<open>-1\<close>, the mark for no expiry: the key stays, and \<open>ttl\<close> answers \<open>-1\<close>.
\<close>

theorem expire_zero_still_visible:
  "get 100 k (snd (expire 100 k 0 (snd (set_op k v s))))
     = (Some v, snd (expire 100 k 0 (snd (set_op k v s))))
   \<and> fst (exists 100 k (snd (expire 100 k 0 (snd (set_op k v s)))))
   \<and> k \<in> set (keys 100 (snd (expire 100 k 0 (snd (set_op k v [])))))
   \<and> ttl 100 k (snd (expire 100 k 0 (snd (set_op k v s)))) = - 2
   \<and> get 100 k (snd (expire 100 k (- 101) (snd (set_op k v s))))
     = (Some v, snd (expire 100 k (- 101) (snd (set_op k v s))))
   \<and> ttl 100 k (snd (expire 100 k (- 101) (snd (set_op k v s)))) = - 1"
  by (simp add: expire_def set_op_def update_conv' get_def exists_def is_expired_def ttl_def
      static_cast_int_def keys_def)

section \<open>LRANGE on an empty list\<close>

text \<open>
  C9. The claim asks \<open>lrange\<close> on an existing empty List to return an empty result with
  every index in bounds. With size 0 both indices are clamped to 0, \<open>start > stop\<close> does
  not hold, and the range \<open>[begin, begin + 1)\<close> is read from a vector without elements:
  for all \<open>start\<close> and \<open>stop\<close> the outcome is \<open>OutOfBounds\<close>. LPUSH then LPOP leaves such a
  List, and LRANGE through the dispatcher runs into the same read.
\<close>

theorem lrange_empty_list_out_of_bounds:
  "(\<forall>start stop. lrange ''L'' start stop [(''L'', \<lparr>data = ListData [], expires_at = - 1\<rparr>)]
        = Inl OutOfBounds)
   \<and> snd (lpop ''L'' (snd (lpush ''L'' ''a'' [])))
        = [(''L'', \<lparr>data = ListData [], expires_at = - 1\<rparr>)]
   \<and> execute_command 0 (Request LRANGE [''L'', ''0'', ''-1''])
        (snd (lpop ''L'' (snd (lpush ''L'' ''a'' [])))) = Inl OutOfBounds"
  by (simp add: lrange_def lpop_def lpush_def get_or_create_def stoi_def isspace_def
      isdigit_def digit_value_def Let_def)

section \<open>Snapshot round trip\<close>

text \<open>
  C2. The claim asks save followed by load to give back every key that is not expired, of
  every variant, with payload, variant and expiry. \<open>load_snapshot\<close> puts back Strings
  only: of a List, a Set and a String without expiry, the String alone comes back. A
  String whose expiry instant equals the clock reading is saved (it is not expired) and
  comes back without expiry, since zero remaining seconds are not set again.
\<close>

theorem restore_drops_lists_and_sets:
  "load_snapshot 0
     (save_snapshot 0
        [(''L'', \<lparr>data = ListData [''a''], expires_at = - 1\<rparr>),
         (''S'', \<lparr>data = SetData [''m''], expires_at = - 1\<rparr>),
         (''k'', \<lparr>data = StringData ''v'', expires_at = - 1\<rparr>)]) []
   = Some [(''k'', \<lparr>data = StringData ''v'', expires_at = - 1\<rparr>)]
   \<and> \<not> is_expired 5 \<lparr>data = StringData ''v'', expires_at = 5\<rparr>
   \<and> load_snapshot 5
        (save_snapshot 5 [(''k'', \<lparr>data = StringData ''v'', expires_at = 5\<rparr>)]) []
      = Some [(''k'', \<lparr>data = StringData ''v'', expires_at = - 1\<rparr>)]"
  by (simp add: save_snapshot_def get_snapshot_def is_expired_def serialize_value_def
      value_type_def load_snapshot_def clear_def deserialize_value_def restore_entry_def
      set_op_def static_cast_int_def eval_nat_numeral)

end
